theory Spec2Isabelle
  imports Complex_Main "HOL-Library.Sublist" "HOL-Library.AList"
begin

section \<open>Python strings\<close>

text \<open>
  A Python \<open>str\<close> is modelled as a \<open>string\<close> holding the UTF-8 bytes of the text. The
  operations the program applies (\<open>split\<close>, \<open>strip\<close>, \<open>replace\<close>, \<open>in\<close>, \<open>startswith\<close>,
  \<open>join\<close>, \<open>lower\<close>, the two \<open>re.sub\<close> calls) are written out below. Character classes
  are those of Python for the ASCII range: bytes of a multi-byte code point are neither
  whitespace nor word characters and are left alone by \<open>lower\<close>, which is what Python does
  for the emoji this program handles. Non-ASCII letters and the Unicode spaces beyond ASCII
  are outside the model.
\<close>

text \<open>
  \<open>str.isspace\<close> and \<open>\s\<close> agree on ASCII: tab, newline, vertical tab, form feed, carriage
  return, the four separators 0x1C to 0x1F, and the space.
\<close>

definition py_isspace :: "char \<Rightarrow> bool" where
  "py_isspace c = (let n = (of_char c :: nat) in (9 \<le> n \<and> n \<le> 13) \<or> (28 \<le> n \<and> n \<le> 32))"

definition nonspace :: "char \<Rightarrow> bool" where
  "nonspace c = (\<not> py_isspace c)"

text \<open>\<open>\w\<close> of the \<open>re\<close> module: a letter, a digit or the underscore.\<close>

definition py_isword :: "char \<Rightarrow> bool" where
  "py_isword c =
     (let n = (of_char c :: nat)
      in (48 \<le> n \<and> n \<le> 57) \<or> (65 \<le> n \<and> n \<le> 90) \<or> (97 \<le> n \<and> n \<le> 122) \<or> n = 95)"

definition lower_char :: "char \<Rightarrow> char" where
  "lower_char c =
     (let n = (of_char c :: nat) in if 65 \<le> n \<and> n \<le> 90 then char_of (n + 32) else c)"

definition py_lower :: "string \<Rightarrow> string" where
  "py_lower s = map lower_char s"

text \<open>\<open>s.split()\<close>: the maximal runs of non-whitespace characters, in order.\<close>

fun split_acc :: "string \<Rightarrow> string \<Rightarrow> string list" where
  "split_acc w [] = (if w = [] then [] else [w])"
| "split_acc w (c # cs) =
     (if py_isspace c then (if w = [] then split_acc [] cs else w # split_acc [] cs)
      else split_acc (w @ [c]) cs)"

definition py_split :: "string \<Rightarrow> string list" where
  "py_split s = split_acc [] s"

text \<open>\<open>s.strip()\<close>.\<close>

definition py_strip :: "string \<Rightarrow> string" where
  "py_strip s = rev (dropWhile py_isspace (rev (dropWhile py_isspace s)))"

text \<open>\<open>sep.join(xs)\<close>.\<close>

fun py_join :: "string \<Rightarrow> string list \<Rightarrow> string" where
  "py_join sep [] = []"
| "py_join sep [x] = x"
| "py_join sep (x # y # ys) = x @ sep @ py_join sep (y # ys)"

text \<open>\<open>needle in hay\<close> on strings.\<close>

fun py_contains :: "string \<Rightarrow> string \<Rightarrow> bool" where
  "py_contains needle [] = (needle = [])"
| "py_contains needle (c # cs) = (prefix needle (c # cs) \<or> py_contains needle cs)"

definition startswith :: "string \<Rightarrow> string \<Rightarrow> bool" where
  "startswith s p = prefix p s"

text \<open>
  \<open>s.replace(old, new)\<close>: the non-overlapping occurrences of \<open>old\<close>, found from the left.
  With an empty \<open>old\<close> Python puts \<open>new\<close> before every character and at the end.
\<close>

function py_replace :: "string \<Rightarrow> string \<Rightarrow> string \<Rightarrow> string" where
  "py_replace old new [] = (if old = [] then new else [])"
| "py_replace old new (c # cs) =
     (if old = [] then new @ c # py_replace old new cs
      else if prefix old (c # cs) then new @ py_replace old new (drop (length old) (c # cs))
      else c # py_replace old new cs)"
  by pat_completeness auto
termination
  by (relation "measure (\<lambda>(old, new, s). length s)") (auto simp: neq_Nil_conv)

text \<open>\<open>s.count(sub)\<close> for a non-empty \<open>sub\<close>: non-overlapping occurrences from the left.\<close>

function py_count :: "string \<Rightarrow> string \<Rightarrow> nat" where
  "py_count sub [] = 0"
| "py_count sub (c # cs) =
     (if sub \<noteq> [] \<and> prefix sub (c # cs) then Suc (py_count sub (drop (length sub) (c # cs)))
      else py_count sub cs)"
  by pat_completeness auto
termination
  by (relation "measure (\<lambda>(sub, s). length s)") (auto simp: neq_Nil_conv)

text \<open>
  \<open>s.split(sep)\<close> for a non-empty separator: the pieces between its occurrences. The
  piece being read is kept reversed.
\<close>

function split_sep_acc :: "string \<Rightarrow> string \<Rightarrow> string \<Rightarrow> string list" where
  "split_sep_acc sep cur [] = [rev cur]"
| "split_sep_acc sep cur (c # cs) =
     (if sep \<noteq> [] \<and> prefix sep (c # cs)
      then rev cur # split_sep_acc sep [] (drop (length sep) (c # cs))
      else split_sep_acc sep (c # cur) cs)"
  by pat_completeness auto
termination
  by (relation "measure (\<lambda>(sep, cur, s). length s)") (auto simp: neq_Nil_conv)

definition py_split_sep :: "string \<Rightarrow> string \<Rightarrow> string list" where
  "py_split_sep s sep = split_sep_acc sep [] s"

text \<open>
  \<open>re.sub(pattern, '', s)\<close>: the scan goes from the left; where the pattern matches, the
  match is dropped and the scan goes on behind it, elsewhere the character is kept. The
  pattern is given by its matcher, which returns the length of the match at the start of
  its argument. Neither pattern of this program matches the empty string.
\<close>

function re_sub_del :: "(string \<Rightarrow> nat option) \<Rightarrow> string \<Rightarrow> string" where
  "re_sub_del m [] = []"
| "re_sub_del m (c # cs) =
     (case m (c # cs) of
        Some n \<Rightarrow> if 0 < n then re_sub_del m (drop n (c # cs)) else c # re_sub_del m cs
      | None \<Rightarrow> c # re_sub_del m cs)"
  by pat_completeness auto
termination
  by (relation "measure (\<lambda>(m, s). length s)") auto

text \<open>
  \<open>http\S+|www.\S+\<close>: the first alternative is tried first; \<open>\S+\<close> is greedy and takes the
  whole run of non-whitespace characters, of which there must be one; the unescaped dot
  matches any character but the newline.
\<close>

definition match_url :: "string \<Rightarrow> nat option" where
  "match_url s =
     (if prefix ''http'' s \<and> takeWhile nonspace (drop 4 s) \<noteq> []
      then Some (4 + length (takeWhile nonspace (drop 4 s)))
      else if prefix ''www'' s then
        (case drop 3 s of
           [] \<Rightarrow> None
         | d # r \<Rightarrow>
             if d \<noteq> CHR 0x0A \<and> takeWhile nonspace r \<noteq> []
             then Some (4 + length (takeWhile nonspace r)) else None)
      else None)"

text \<open>\<open>#\w+\<close>.\<close>

definition match_hashtag :: "string \<Rightarrow> nat option" where
  "match_hashtag s =
     (case s of
        [] \<Rightarrow> None
      | c # r \<Rightarrow>
          if c = CHR ''#'' \<and> takeWhile py_isword r \<noteq> []
          then Some (1 + length (takeWhile py_isword r)) else None)"

section \<open>The random source\<close>

text \<open>
  The module \<open>random\<close> is a parameter of the model: a generator is an unbounded supply of
  raw draws and the position of the next one. \<open>randbelow m\<close> takes one draw and reduces it
  below \<open>m\<close>. \<open>random.sample(population, k)\<close> is CPython's selection for a short population:
  \<open>k\<close> times it picks an index below the number of live entries of a copy of the
  population, takes that entry and moves the last live entry into its place. It raises
  ValueError when \<open>k\<close> exceeds the population; the program asks for one or two of four.
  \<open>random.choice\<close> takes the entry at an index drawn below the length; it raises IndexError
  on an empty sequence, and the two sequences the program chooses from are fixed and not
  empty.
\<close>

record rng =
  draws :: "nat \<Rightarrow> nat"
  pos :: nat

definition randbelow :: "nat \<Rightarrow> rng \<Rightarrow> nat \<times> rng" where
  "randbelow m g = (draws g (pos g) mod m, g\<lparr>pos := Suc (pos g)\<rparr>)"

fun sample_pool :: "nat \<Rightarrow> 'a list \<Rightarrow> nat \<Rightarrow> rng \<Rightarrow> 'a list \<times> rng" where
  "sample_pool 0 pool m g = ([], g)"
| "sample_pool (Suc k) pool m g =
     (let (j, g1) = randbelow m g;
          x = pool ! j;
          (xs, g2) = sample_pool k (pool[j := pool ! (m - 1)]) (m - 1) g1
      in (x # xs, g2))"

definition random_sample :: "'a list \<Rightarrow> nat \<Rightarrow> rng \<Rightarrow> 'a list \<times> rng" where
  "random_sample population k g = sample_pool k population (length population) g"

definition random_choice :: "'a list \<Rightarrow> rng \<Rightarrow> 'a \<times> rng" where
  "random_choice xs g = (let (j, g1) = randbelow (length xs) g in (xs ! j, g1))"

section \<open>SEOLinkedInPoster: profile, hashtags, keyword density\<close>

record profile =
  name :: string
  pronouns :: string
  title :: string
  skills :: "string list"
  profile_url :: string
  primary_keywords :: "string list"

definition profile_data :: profile where
  "profile_data =
     \<lparr> name = ''Muhammad Abdullah'',
       pronouns = ''(He/Him)'',
       title = ''AI & Machine Learning Developer | Generative AI & Chatbot Specialist'',
       skills = [''Python'', ''Flask'', ''Streamlit'', ''Snowflake'', ''Docker''],
       profile_url = ''https://www.linkedin.com/in/muhammad-abdullah-ai-ml-developer/'',
       primary_keywords =
         [''AI Developer'', ''Machine Learning Expert'', ''Generative AI Specialist'',
          ''Chatbot Developer'', ''Python Developer''] \<rparr>"

definition pool_core :: "string list" where
  "pool_core = [''AI'', ''MachineLearning'', ''GenerativeAI'', ''ArtificialIntelligence'']"

definition pool_technical :: "string list" where
  "pool_technical = [''PythonProgramming'', ''DataScience'', ''ChatbotDevelopment'', ''MLOps'']"

definition pool_business :: "string list" where
  "pool_business = [''DigitalTransformation'', ''TechInnovation'', ''BusinessAI'', ''AIStrategy'']"

definition pool_trending :: "string list" where
  "pool_trending = [''FutureOfAI'', ''AITechnology'', ''TechTrends'', ''Innovation'']"

definition get_seo_optimized_hashtags :: "rng \<Rightarrow> string list \<times> rng" where
  "get_seo_optimized_hashtags g =
     (let (c, g1) = random_sample pool_core 2 g;
          (t, g2) = random_sample pool_technical 2 g1;
          (b, g3) = random_sample pool_business 1 g2;
          (r, g4) = random_sample pool_trending 1 g3
      in (c @ t @ b @ r, g4))"

text \<open>
  \<open>_calculate_keyword_density\<close>. The keyword list is the profile's, read at the call. The
  density is computed by Python in binary floating point; the model computes it in exact
  rationals, with \<open>round(x, 2)\<close> as rounding to the nearest hundredth, ties to even. The two
  agree at 0 and at 100, and wherever the percentage is not half-way between two
  hundredths; on such a tie Python rounds the float next to it, to one of the two. The
  returned dict is an association list in insertion order.
\<close>

definition py_round2 :: "rat \<Rightarrow> rat" where
  "py_round2 x =
     (let y = x * 100; f = \<lfloor>y\<rfloor>; d = y - of_int f
      in of_int (if d < 1 / 2 then f else if 1 / 2 < d then f + 1
                 else if even f then f else f + 1) / 100)"

definition keyword_count :: "string \<Rightarrow> string list \<Rightarrow> nat" where
  "keyword_count keyword content_words =
     length (filter (\<lambda>word. py_contains (py_lower keyword) word) content_words)"

definition density :: "nat \<Rightarrow> nat \<Rightarrow> rat" where
  "density kc total_words =
     (if 0 < total_words then (of_nat kc / of_nat total_words) * 100 else 0)"

definition calculate_keyword_density :: "profile \<Rightarrow> string \<Rightarrow> (string \<times> rat) list" where
  "calculate_keyword_density p content =
     (let content_words = py_split (py_lower content);
          total_words = length content_words
      in fold (\<lambda>keyword kd.
                 AList.update keyword
                   (py_round2 (density (keyword_count keyword content_words) total_words)) kd)
              (primary_keywords p) [])"

section \<open>The LinkedIn client of linkedin_api.py\<close>

text \<open>
  Exceptions are values. The classes the program tells apart are
  \<open>requests.exceptions.RequestException\<close> with its subclasses (HTTPError, ConnectionError,
  RetryError, ...), \<open>LinkedInError\<close>, \<open>ValueError\<close>, and every other subclass of
  \<open>Exception\<close>; each carries the message \<open>str(e)\<close> returns, and the first and the last the
  name of the concrete class.
\<close>

datatype exn =
    RequestException string string
  | LinkedInError string
  | ValueError string
  | OtherException string string

fun exn_str :: "exn \<Rightarrow> string" where
  "exn_str (RequestException cls msg) = msg"
| "exn_str (LinkedInError msg) = msg"
| "exn_str (ValueError msg) = msg"
| "exn_str (OtherException cls msg) = msg"

fun exn_class_name :: "exn \<Rightarrow> string" where
  "exn_class_name (RequestException cls msg) = cls"
| "exn_class_name (LinkedInError msg) = ''LinkedInError''"
| "exn_class_name (ValueError msg) = ''ValueError''"
| "exn_class_name (OtherException cls msg) = cls"

datatype visibility = PUBLIC | CONNECTIONS

fun visibility_value :: "visibility \<Rightarrow> string" where
  "visibility_value PUBLIC = ''PUBLIC''"
| "visibility_value CONNECTIONS = ''CONNECTIONS''"

text \<open>\<open>Visibility(s)\<close>: the member with that value, or ValueError.\<close>

definition visibility_of_value :: "string \<Rightarrow> visibility option" where
  "visibility_of_value s =
     (if s = ''PUBLIC'' then Some PUBLIC else if s = ''CONNECTIONS'' then Some CONNECTIONS
      else None)"

text \<open>The argument \<open>visibility: Union[Visibility, str]\<close>.\<close>

datatype visibility_arg = VisEnum visibility | VisStr string

definition upper_char :: "char \<Rightarrow> char" where
  "upper_char c =
     (let n = (of_char c :: nat) in if 97 \<le> n \<and> n \<le> 122 then char_of (n - 32) else c)"

definition py_upper :: "string \<Rightarrow> string" where
  "py_upper s = map upper_char s"

text \<open>\<open>PostResponse\<close>; its \<open>details\<close> hold one entry, the timestamp.\<close>

record post_response =
  status :: string
  post_id :: string
  details :: string

text \<open>The body of the POST, \<open>post_data\<close>.\<close>

record ugc_post =
  author :: string
  lifecycleState :: string
  shareCommentary_text :: string
  shareMediaCategory :: string
  memberNetworkVisibility :: string

datatype request =
    Get string "(string \<times> string) list"
  | Post string "(string \<times> string) list" ugc_post

text \<open>
  What \<open>response.json()\<close> gives: a dict of strings, or a value of another type, which
  carries the message of the TypeError that subscripting it with \<open>'sub'\<close> raises.
\<close>

datatype json = JDict "(string \<times> string) list" | JOther string

text \<open>
  A response: its status code, the message of the HTTPError that \<open>raise_for_status\<close> builds
  for it, its headers, and what \<open>json()\<close> does, raise or return.
\<close>

record response =
  status_code :: nat
  http_error_text :: string
  headers :: "(string \<times> string) list"
  json_body :: "exn + json"

text \<open>
  The world outside the process. \<open>respond\<close> is what \<open>session.get\<close> and \<open>session.post\<close> end in,
  given the requests sent before: an exception or the final response. The session is
  mounted with \<open>Retry(total=3, backoff_factor=0.5, status_forcelist=[429, 500, 502, 503,
  504])\<close>; what urllib3 resends under that policy happens inside \<open>respond\<close> and is not part of
  this program. \<open>logging_failure\<close> is the exception that creating the log directory or
  opening the log file raises, if any; \<open>now\<close> is the clock's \<open>isoformat()\<close>. What is written
  to the log is not modelled.
\<close>

record world =
  respond :: "request list \<Rightarrow> request \<Rightarrow> exn + response"
  logging_failure :: "exn option"
  now :: string

definition BASE_URL :: string where
  "BASE_URL = ''https://api.linkedin.com/v2''"

definition API_VERSION :: string where
  "API_VERSION = ''202304''"

record linkedin_post =
  access_token :: string
  debug :: bool
  user_info :: "(string \<times> string) list"
  user_urn :: string

definition get_headers :: "string \<Rightarrow> (string \<times> string) list" where
  "get_headers token =
     [(''Authorization'', ''Bearer '' @ token),
      (''Content-Type'', ''application/json''),
      (''X-Restli-Protocol-Version'', ''2.0.0''),
      (''LinkedIn-Version'', API_VERSION)]"

text \<open>\<open>session.get\<close> and \<open>session.post\<close>: the request is sent and recorded.\<close>

definition session_send :: "world \<Rightarrow> request \<Rightarrow> request list \<Rightarrow> (exn + response) \<times> request list" where
  "session_send w req sent = (respond w sent req, sent @ [req])"

text \<open>\<open>response.raise_for_status()\<close>: HTTPError for a status from 400 to 599.\<close>

definition raise_for_status :: "response \<Rightarrow> exn option" where
  "raise_for_status r =
     (if 400 \<le> status_code r \<and> status_code r < 600
      then Some (RequestException ''HTTPError'' (http_error_text r)) else None)"

text \<open>The headers of a response are looked up without regard to case.\<close>

definition header_get :: "response \<Rightarrow> string \<Rightarrow> string option" where
  "header_get r k = map_of (map (\<lambda>(h, v). (py_lower h, v)) (headers r)) (py_lower k)"

definition token_validation_message :: "string \<Rightarrow> string" where
  "token_validation_message e =
     ''Token validation failed: '' @ e @ [CHR 0x0A] @
     ''Please ensure:'' @ [CHR 0x0A] @
     ''1. Your access token is valid and not expired'' @ [CHR 0x0A] @
     ''2. You have the required scopes (openid, profile, w_member_social)'' @ [CHR 0x0A] @
     ''3. Your application is properly configured in LinkedIn Developer Portal''"

text \<open>
  \<open>_validate_token\<close>: only a RequestException is turned into a LinkedInError; the KeyError of
  a reply without \<open>sub\<close> and every other exception go through as they are.
\<close>

definition wrap_validation :: "exn \<Rightarrow> exn" where
  "wrap_validation e =
     (case e of
        RequestException cls msg \<Rightarrow> LinkedInError (token_validation_message msg)
      | _ \<Rightarrow> e)"

definition validate_token ::
  "world \<Rightarrow> string \<Rightarrow> request list \<Rightarrow> (exn + (string \<times> string) list \<times> string) \<times> request list" where
  "validate_token w token sent =
     (let (reply, sent1) = session_send w (Get (BASE_URL @ ''/userinfo'') (get_headers token)) sent
      in (case reply of
            Inl e \<Rightarrow> Inl (wrap_validation e)
          | Inr r \<Rightarrow>
              (case raise_for_status r of
                 Some e \<Rightarrow> Inl (wrap_validation e)
               | None \<Rightarrow>
                   (case json_body r of
                      Inl e \<Rightarrow> Inl (wrap_validation e)
                    | Inr (JOther msg) \<Rightarrow> Inl (OtherException ''TypeError'' msg)
                    | Inr (JDict info) \<Rightarrow>
                        (case map_of info ''sub'' of
                           None \<Rightarrow> Inl (OtherException ''KeyError'' ([CHR 0x27] @ ''sub'' @ [CHR 0x27]))
                         | Some sub \<Rightarrow> Inr (info, ''urn:li:person:'' @ sub)))),
          sent1))"

text \<open>\<open>LinkedInPost.__init__\<close>: logging, session, token validation.\<close>

definition linkedin_post_init ::
  "world \<Rightarrow> string \<Rightarrow> bool \<Rightarrow> request list \<Rightarrow> (exn + linkedin_post) \<times> request list" where
  "linkedin_post_init w token dbg sent =
     (case logging_failure w of
        Some e \<Rightarrow> (Inl e, sent)
      | None \<Rightarrow>
          (case validate_token w token sent of
             (Inl e, sent1) \<Rightarrow> (Inl e, sent1)
           | (Inr (info, urn), sent1) \<Rightarrow>
               (Inr \<lparr> access_token = token, debug = dbg, user_info = info, user_urn = urn \<rparr>,
                sent1)))"

definition invalid_visibility_message :: string where
  "invalid_visibility_message =
     ''Invalid visibility value. Must be one of: '' @
     py_join '', '' (map visibility_value [PUBLIC, CONNECTIONS])"

definition create_text_post ::
  "world \<Rightarrow> linkedin_post \<Rightarrow> string \<Rightarrow> visibility_arg \<Rightarrow> request list
     \<Rightarrow> (exn + post_response) \<times> request list" where
  "create_text_post w self text vis sent =
     (if py_strip text = [] then (Inl (ValueError ''Post text cannot be empty''), sent)
      else
        (case (case vis of
                 VisEnum v \<Rightarrow> Inr v
               | VisStr s \<Rightarrow>
                   (case visibility_of_value (py_upper s) of
                      Some v \<Rightarrow> Inr v
                    | None \<Rightarrow> Inl (ValueError invalid_visibility_message))) of
           Inl e \<Rightarrow> (Inl e, sent)
         | Inr v \<Rightarrow>
             (let post_data =
                    \<lparr> author = user_urn self,
                      lifecycleState = ''PUBLISHED'',
                      shareCommentary_text = text,
                      shareMediaCategory = ''NONE'',
                      memberNetworkVisibility = visibility_value v \<rparr>;
                  (reply, sent1) =
                    session_send w
                      (Post (BASE_URL @ ''/ugcPosts'') (get_headers (access_token self)) post_data)
                      sent
              in (case reply of
                    Inl e \<Rightarrow> Inl (LinkedInError (''Failed to create post: '' @ exn_str e))
                  | Inr r \<Rightarrow>
                      (case raise_for_status r of
                         Some e \<Rightarrow> Inl (LinkedInError (''Failed to create post: '' @ exn_str e))
                       | None \<Rightarrow>
                           (case header_get r ''x-restli-id'' of
                              None \<Rightarrow> Inl (LinkedInError ''No post ID received in response'')
                            | Some pid \<Rightarrow>
                                if pid = [] then Inl (LinkedInError ''No post ID received in response'')
                                else Inr \<lparr> status = ''success'', post_id = pid, details = now w \<rparr>)),
                  sent1))))"

text \<open>
  The dict that the module-level \<open>create_post\<close> returns: with \<open>success\<close> true the post
  identifier, the status and the details; with \<open>success\<close> false the error message and the
  name of the exception's class.
\<close>

datatype post_result =
    Success string string string
  | Failure string string

fun result_success :: "post_result \<Rightarrow> bool" where
  "result_success (Success pid st det) = True"
| "result_success (Failure err ty) = False"

text \<open>
  The \<open>try\<close> block of \<open>create_post\<close>: the client is built, the post is made. What it raises
  is an exception value; the \<open>except Exception\<close> clause of \<open>create_post\<close> turns it into the
  failure dict.
\<close>

definition create_post_try ::
  "world \<Rightarrow> string \<Rightarrow> string \<Rightarrow> string \<Rightarrow> bool \<Rightarrow> request list
     \<Rightarrow> (exn + post_response) \<times> request list" where
  "create_post_try w token message vis dbg sent =
     (case linkedin_post_init w token dbg sent of
        (Inl e, sent1) \<Rightarrow> (Inl e, sent1)
      | (Inr linkedin, sent1) \<Rightarrow> create_text_post w linkedin message (VisStr vis) sent1)"

definition create_post ::
  "world \<Rightarrow> string \<Rightarrow> string \<Rightarrow> string \<Rightarrow> bool \<Rightarrow> request list
     \<Rightarrow> post_result \<times> request list" where
  "create_post w token message vis dbg sent =
     (case create_post_try w token message vis dbg sent of
        (Inr resp, sent1) \<Rightarrow> (Success (post_id resp) (status resp) (details resp), sent1)
      | (Inl e, sent1) \<Rightarrow> (Failure (exn_str e) (exn_class_name e), sent1))"

text \<open>
  Two worlds to run the client in. In the first the token is accepted and the post is
  created; in the second the user-info endpoint answers 401.
\<close>

definition world_ok :: world where
  "world_ok =
     \<lparr> respond = (\<lambda>sent req.
         case req of
           Get url hs \<Rightarrow>
             Inr \<lparr> status_code = 200, http_error_text = [], headers = [],
                   json_body = Inr (JDict [(''sub'', ''abc123'')]) \<rparr>
         | Post url hs body \<Rightarrow>
             Inr \<lparr> status_code = 201, http_error_text = [],
                   headers = [(''X-RestLi-Id'', ''urn:li:share:7'')],
                   json_body = Inr (JDict []) \<rparr>),
       logging_failure = None,
       now = ''2024-05-01T10:00:00'' \<rparr>"


section \<open>SEOLinkedInPoster: the content pipeline\<close>

text \<open>The emoji, as their UTF-8 bytes.\<close>

definition rocket :: string where "rocket = [CHR 0xF0, CHR 0x9F, CHR 0x9A, CHR 0x80]"
definition bulb :: string where "bulb = [CHR 0xF0, CHR 0x9F, CHR 0x92, CHR 0xA1]"
definition robot :: string where "robot = [CHR 0xF0, CHR 0x9F, CHR 0xA4, CHR 0x96]"
definition sparkles :: string where "sparkles = [CHR 0xE2, CHR 0x9C, CHR 0xA8]"
definition biceps :: string where "biceps = [CHR 0xF0, CHR 0x9F, CHR 0x92, CHR 0xAA]"
definition magnifier :: string where "magnifier = [CHR 0xF0, CHR 0x9F, CHR 0x94, CHR 0x8D]"
definition dart :: string where "dart = [CHR 0xF0, CHR 0x9F, CHR 0x8E, CHR 0xAF]"
definition high_voltage :: string where "high_voltage = [CHR 0xE2, CHR 0x9A, CHR 0xA1]"
definition crystal_ball :: string where "crystal_ball = [CHR 0xF0, CHR 0x9F, CHR 0x94, CHR 0xAE]"
definition laptop :: string where "laptop = [CHR 0xF0, CHR 0x9F, CHR 0x92, CHR 0xBB]"
definition handshake :: string where "handshake = [CHR 0xF0, CHR 0x9F, CHR 0xA4, CHR 0x9D]"

record content_theme =
  theme :: string
  headline_emojis :: "string list"
  focus :: string

definition get_content_themes :: "content_theme list" where
  "get_content_themes =
     [\<lparr> theme = ''expertise_showcase'', headline_emojis = [rocket, bulb],
        focus = ''Technical expertise and problem-solving capabilities'' \<rparr>,
      \<lparr> theme = ''thought_leadership'', headline_emojis = [robot, crystal_ball],
        focus = ''AI/ML industry insights and future trends'' \<rparr>,
      \<lparr> theme = ''solution_spotlight'', headline_emojis = [high_voltage, dart],
        focus = ''Specific solutions and case studies'' \<rparr>,
      \<lparr> theme = ''technology_deep_dive'', headline_emojis = [magnifier, laptop],
        focus = ''Technical deep dives into AI/ML concepts'' \<rparr>]"

text \<open>
  \<open>generate_post_content\<close> draws a theme, then a keyword, puts them into the fixed text of
  the prompt and calls the language model. The prompt is modelled by the two drawn values;
  the language model is a parameter: what its call returns or raises, given the number of
  calls made before and the prompt.
\<close>

record prompt =
  prompt_theme :: content_theme
  prompt_keyword :: string

definition generate_post_content ::
  "(nat \<Rightarrow> prompt \<Rightarrow> exn + string) \<Rightarrow> nat \<Rightarrow> rng \<Rightarrow> (exn + string) \<times> rng" where
  "generate_post_content llm calls g =
     (let (th, g1) = random_choice get_content_themes g;
          (kw, g2) = random_choice (primary_keywords profile_data) g1
      in (llm calls \<lparr> prompt_theme = th, prompt_keyword = kw \<rparr>, g2))"

definition emojis :: "string list" where
  "emojis = [rocket, bulb, robot, sparkles, biceps, magnifier, dart, high_voltage,
             crystal_ball, laptop, handshake]"

text \<open>The loop over the sections of \<open>format_post_content\<close>.\<close>

fun format_sections :: "string list \<Rightarrow> rng \<Rightarrow> string list \<times> rng" where
  "format_sections [] g = ([], g)"
| "format_sections (section # sections) g =
     (if py_strip section = [] then format_sections sections g
      else
        (let clean_section = py_strip (py_replace ''*'' '''' (py_replace ''**'' '''' section));
             (clean_section, g1) =
               (if startswith clean_section ''#''
                then (let (hashtags, g') = get_seo_optimized_hashtags g
                      in (py_join '' '' (map (\<lambda>tag. ''#'' @ tag) hashtags), g'))
                else (clean_section, g));
             clean_section =
               fold (\<lambda>emoji s. py_replace emoji (emoji @ '' '') s) emojis clean_section;
             (formatted_sections, g2) = format_sections sections g1
         in (clean_section # formatted_sections, g2)))"

text \<open>The content before the truncation step: sections joined, profile URL on its own line.\<close>

definition join_sections :: "string \<Rightarrow> rng \<Rightarrow> string \<times> rng" where
  "join_sections content g =
     (let (formatted_sections, g1) = format_sections (py_split_sep content [CHR 0x0A, CHR 0x0A]) g;
          formatted_content = py_join [CHR 0x0A, CHR 0x0A] formatted_sections;
          formatted_content =
            (if py_contains (profile_url profile_data) formatted_content
             then py_replace (profile_url profile_data) (CHR 0x0A # profile_url profile_data)
                    formatted_content
             else formatted_content)
      in (formatted_content, g1))"

definition truncate_content :: "string \<Rightarrow> string" where
  "truncate_content formatted_content =
     (let words = py_split formatted_content
      in if 175 < length words
         then py_join '' '' (take 170 words) @ ''...''
              @ [CHR 0x0A, CHR 0x0A] @ profile_url profile_data
         else formatted_content)"

definition format_post_content :: "string \<Rightarrow> rng \<Rightarrow> string \<times> rng" where
  "format_post_content content g =
     (let (formatted_content, g1) = join_sections content g
      in (py_strip (truncate_content formatted_content), g1))"

definition validate_content_length :: "string \<Rightarrow> bool" where
  "validate_content_length content =
     (let content_without_urls = re_sub_del match_url content;
          content_without_hashtags = re_sub_del match_hashtag content_without_urls;
          word_count = length (py_split content_without_hashtags)
      in 150 \<le> word_count \<and> word_count \<le> 175)"

section \<open>SEOLinkedInPoster: records and the orchestrator\<close>

text \<open>
  The record built after a publish call, and the error block of a run that ends in an
  exception (its \<open>success\<close> is always false).
\<close>

record post_record =
  date :: string
  content :: string
  record_post_id :: "string option"
  success :: bool
  error :: "string option"
  attempt :: nat
  word_count :: nat
  primary_keywords_used :: "(string \<times> rat) list"

record error_data =
  error_message :: string
  error_type :: string
  attempts :: nat
  error_content :: "string option"

datatype post_data =
    PostData post_record
  | ErrorData string error_data

text \<open>The \<open>seo_metrics\<close> that \<open>save_post_record\<close> adds to a record with a \<open>content\<close> key.\<close>

record seo_metrics =
  keyword_density :: "(string \<times> rat) list"
  hashtag_count :: nat
  content_length :: nat
  emoji_count :: nat

datatype audit_entry =
    PostEntry post_record seo_metrics
  | ErrorEntry string error_data

text \<open>
  The file \<open>linkedin_posts_seo.json\<close>: not there, there with a list of entries, or there
  and such that reading it raises (not JSON, not a list, not readable).
\<close>

datatype audit_file = Missing | Unreadable | Stored "audit_entry list"

definition counted_emojis :: "string list" where
  "counted_emojis = [rocket, bulb, robot, sparkles, biceps, magnifier, handshake]"

definition compute_seo_metrics :: "string \<Rightarrow> seo_metrics" where
  "compute_seo_metrics c =
     \<lparr> keyword_density = calculate_keyword_density profile_data c,
       hashtag_count = py_count ''#'' c,
       content_length = length (py_split c),
       emoji_count = sum_list (map (\<lambda>e. py_count e c) counted_emojis) \<rparr>"

definition to_entry :: "post_data \<Rightarrow> audit_entry" where
  "to_entry d =
     (case d of
        PostData r \<Rightarrow> PostEntry r (compute_seo_metrics (content r))
      | ErrorData dt e \<Rightarrow> ErrorEntry dt e)"

text \<open>
  \<open>save_post_record\<close>: the entries are read, the new one is appended, the file is written
  again. An exception on the way is printed and swallowed, and the file stays as it was.
  A failure of the write itself is not modelled.
\<close>

definition save_post_record :: "post_data \<Rightarrow> audit_file \<Rightarrow> audit_file" where
  "save_post_record d f =
     (case f of
        Missing \<Rightarrow> Stored [to_entry d]
      | Stored posts \<Rightarrow> Stored (posts @ [to_entry d])
      | Unreadable \<Rightarrow> Unreadable)"

text \<open>
  What \<open>create_seo_post\<close> returns: the dict of \<open>create_post\<close>, the error block, or, when the
  loop runs out, nothing, that is \<open>None\<close>.
\<close>

datatype seo_result =
    Returned post_result
  | ReturnedError error_data
  | ReturnedNone

text \<open>
  The state a run threads through: the random source, the requests sent, the audit file,
  the local variable \<open>formatted_content\<close> (unbound until the first formatting succeeds, and
  kept from one attempt to the next), and two counters that are not in the source and only
  count the calls of \<open>generate_post_content\<close> and of \<open>create_post\<close>.
\<close>

record poster_state =
  random_state :: rng
  sent_requests :: "request list"
  audit :: audit_file
  formatted_content :: "string option"
  generated :: nat
  published :: nat

record poster =
  llm :: "nat \<Rightarrow> prompt \<Rightarrow> exn + string"
  linkedin_token :: string
  outside :: world

text \<open>The first half of an attempt: generate, format, validate.\<close>

datatype attempt_outcome = Raised exn | Invalid | Valid string

definition run_pipeline :: "poster \<Rightarrow> poster_state \<Rightarrow> attempt_outcome \<times> poster_state" where
  "run_pipeline self st =
     (let (raw, g1) = generate_post_content (llm self) (generated st) (random_state st);
          st1 = st\<lparr> random_state := g1, generated := Suc (generated st) \<rparr>
      in (case raw of
            Inl e \<Rightarrow> (Raised e, st1)
          | Inr raw_content \<Rightarrow>
              (let (formatted, g2) = format_post_content raw_content g1;
                   st2 = st1\<lparr> random_state := g2, formatted_content := Some formatted \<rparr>
               in if \<not> validate_content_length formatted then (Invalid, st2)
                  else (Valid formatted, st2))))"

text \<open>The second half, for a content that passed: publish, record, return.\<close>

definition publish_and_record ::
  "poster \<Rightarrow> nat \<Rightarrow> string \<Rightarrow> poster_state \<Rightarrow> seo_result \<times> poster_state" where
  "publish_and_record self attempt_index formatted st =
     (let (result, sent1) =
            create_post (outside self) (linkedin_token self) formatted ''PUBLIC'' True (sent_requests st);
          post_record =
            \<lparr> date = now (outside self),
              content = formatted,
              record_post_id = (case result of Success pid s d \<Rightarrow> Some pid | Failure e t \<Rightarrow> None),
              success = result_success result,
              error = (case result of Success pid s d \<Rightarrow> None | Failure e t \<Rightarrow> Some e),
              attempt = attempt_index + 1,
              word_count = length (py_split formatted),
              primary_keywords_used = calculate_keyword_density profile_data formatted \<rparr>
      in (Returned result,
          st\<lparr> sent_requests := sent1, published := Suc (published st),
              audit := save_post_record (PostData post_record) (audit st) \<rparr>))"

text \<open>
  The loop \<open>for attempt in range(max_attempts)\<close>: \<open>remaining\<close> counts the iterations left.
  An attempt whose content fails the length check goes on to the next one (\<open>continue\<close>). An
  exception is recorded and returned on the last attempt only. When no iteration is left
  the function ends without a \<open>return\<close>.
\<close>

fun seo_loop :: "poster \<Rightarrow> int \<Rightarrow> nat \<Rightarrow> nat \<Rightarrow> poster_state \<Rightarrow> seo_result \<times> poster_state" where
  "seo_loop self max_attempts 0 attempt_index st = (ReturnedNone, st)"
| "seo_loop self max_attempts (Suc remaining) attempt_index st =
     (case run_pipeline self st of
        (Invalid, st1) \<Rightarrow> seo_loop self max_attempts remaining (Suc attempt_index) st1
      | (Valid formatted, st1) \<Rightarrow> publish_and_record self attempt_index formatted st1
      | (Raised e, st1) \<Rightarrow>
          if int attempt_index = max_attempts - 1
          then (let error_data =
                      \<lparr> error_message = exn_str e,
                        error_type = exn_class_name e,
                        attempts = attempt_index + 1,
                        error_content = formatted_content st1 \<rparr>
                in (ReturnedError error_data,
                    st1\<lparr> audit :=
                      save_post_record (ErrorData (now (outside self)) error_data) (audit st1) \<rparr>))
          else seo_loop self max_attempts remaining (Suc attempt_index) st1)"

definition create_seo_post :: "poster \<Rightarrow> int \<Rightarrow> poster_state \<Rightarrow> seo_result \<times> poster_state" where
  "create_seo_post self max_attempts st =
     seo_loop self max_attempts (nat max_attempts) 0 (st\<lparr> formatted_content := None \<rparr>)"

text \<open>
  A language model whose answer is always the same three words, and a fresh state: no
  request sent, no audit file yet.
\<close>

definition short_answers :: "nat \<Rightarrow> prompt \<Rightarrow> exn + string" where
  "short_answers calls p = Inr ''Hello LinkedIn friends''"

definition fresh_state :: poster_state where
  "fresh_state =
     \<lparr> random_state = \<lparr> draws = (\<lambda>n. n), pos = 0 \<rparr>, sent_requests = [], audit = Missing,
       formatted_content = None, generated = 0, published = 0 \<rparr>"






section \<open>The word count of the length check\<close>






section \<open>Facts about the string operations\<close>

lemma lower_char_space [simp]: "py_isspace (lower_char c) = py_isspace c"
  unfolding py_isspace_def lower_char_def Let_def by auto

lemma space_is_space [simp]: "py_isspace (CHR '' '')"
  by (simp add: py_isspace_def)

lemma lower_char_blank [simp]: "lower_char (CHR '' '') = CHR '' ''"
  by (simp add: lower_char_def)

lemma split_acc_tokens:
  "t \<in> set (split_acc w s) \<Longrightarrow> \<forall>c\<in>set w. \<not> py_isspace c \<Longrightarrow> t \<noteq> [] \<and> (\<forall>c\<in>set t. \<not> py_isspace c)"
proof (induction s arbitrary: w)
  case Nil
  then show ?case by (cases "w = []") auto
next
  case (Cons a s)
  show ?case
  proof (cases "py_isspace a")
    case True
    then have "t = w \<and> w \<noteq> [] \<or> t \<in> set (split_acc [] s)"
      using Cons.prems(1) by (cases "w = []") auto
    then show ?thesis using Cons.IH[of "[]"] Cons.prems(2) by auto
  next
    case False
    then have "t \<in> set (split_acc (w @ [a]) s)" using Cons.prems(1) by simp
    moreover have "\<forall>c\<in>set (w @ [a]). \<not> py_isspace c" using False Cons.prems(2) by simp
    ultimately show ?thesis using Cons.IH[of "w @ [a]"] by blast
  qed
qed

lemma py_split_tokens: "t \<in> set (py_split s) \<Longrightarrow> t \<noteq> [] \<and> (\<forall>c\<in>set t. \<not> py_isspace c)"
  unfolding py_split_def using split_acc_tokens[of t "[]" s] by simp

lemma py_contains_sublist: "py_contains n h \<longleftrightarrow> sublist n h"
  by (induction h) (auto simp: sublist_Cons_right)









section \<open>Sampling without replacement\<close>

lemma randbelow_lt: "0 < m \<Longrightarrow> fst (randbelow m g) < m"
  by (simp add: randbelow_def)

lemma sample_pool_props:
  assumes "k \<le> m" "m \<le> length pool" "distinct (take m pool)"
  shows "length (fst (sample_pool k pool m g)) = k
       \<and> distinct (fst (sample_pool k pool m g))
       \<and> set (fst (sample_pool k pool m g)) \<subseteq> set (take m pool)"
  using assms
proof (induction k arbitrary: pool m g)
  case 0
  then show ?case by simp
next
  case (Suc k)
  define j where "j = fst (randbelow m g)"
  define g1 where "g1 = snd (randbelow m g)"
  define pool' where "pool' = pool[j := pool ! (m - 1)]"
  have m: "0 < m" using Suc.prems by simp
  have j: "j < m" unfolding j_def using m by (rule randbelow_lt)
  have tk: "take (m - 1) pool' = (take (m - 1) pool)[j := pool ! (m - 1)]"
    unfolding pool'_def by (simp add: take_update_swap)
  obtain m' where m': "m = Suc m'" using m by (cases m) auto
  have split: "take m pool = take (m - 1) pool @ [pool ! (m - 1)]"
    unfolding m' using take_Suc_conv_app_nth[of m' pool] Suc.prems(2) m' by simp
  have d1: "distinct (take (m - 1) pool)" and notin: "pool ! (m - 1) \<notin> set (take (m - 1) pool)"
    using Suc.prems(3) split by auto
  have xin: "pool ! j \<in> set (take m pool)"
    using j Suc.prems(2) by (metis in_set_conv_nth length_take min.absorb2 nth_take)
  have set': "set (take (m - 1) pool') = set (take m pool) - {pool ! j}"
  proof (cases "j = m - 1")
    case True
    then have "pool' = pool" unfolding pool'_def by simp
    then show ?thesis using True split notin by auto
  next
    case False
    then have jl: "j < length (take (m - 1) pool)" using j Suc.prems(2) by simp
    have s1: "set (take (m - 1) pool') = insert (pool ! (m - 1)) (set (take (m - 1) pool) - {take (m - 1) pool ! j})"
      unfolding tk using set_update_distinct[OF d1 jl] .
    have s2: "set (take m pool) = insert (pool ! (m - 1)) (set (take (m - 1) pool))"
      by (subst split) simp
    have eqj: "take (m - 1) pool ! j = pool ! j" using False j by simp
    have "pool ! j \<noteq> pool ! (m - 1)"
    proof
      assume e: "pool ! j = pool ! (m - 1)"
      have "take (m - 1) pool ! j \<in> set (take (m - 1) pool)"
        using jl by (rule nth_mem)
      then have "pool ! (m - 1) \<in> set (take (m - 1) pool)"
        unfolding eqj e .
      with notin show False ..
    qed
    then show ?thesis unfolding s1 s2 eqj by blast
  qed
  have dist': "distinct (take (m - 1) pool')"
  proof (cases "j = m - 1")
    case True
    then have "pool' = pool" unfolding pool'_def by simp
    then show ?thesis using d1 by simp
  next
    case False
    show ?thesis unfolding tk using d1 notin by (intro distinct_list_update) auto
  qed
  have len': "m - 1 \<le> length pool'" using Suc.prems(2) unfolding pool'_def by simp
  have k: "k \<le> m - 1" using Suc.prems(1) by simp
  note IH = Suc.IH[OF k len' dist', of g1]
  have eq: "fst (sample_pool (Suc k) pool m g) = pool ! j # fst (sample_pool k pool' (m - 1) g1)"
    by (simp add: j_def g1_def pool'_def split_beta Let_def)
  show ?case unfolding eq using IH set' xin by auto
qed

lemma random_sample_props:
  assumes "k \<le> length population" "distinct population"
  shows "length (fst (random_sample population k g)) = k
       \<and> distinct (fst (random_sample population k g))
       \<and> set (fst (random_sample population k g)) \<subseteq> set population"
  unfolding random_sample_def
  using sample_pool_props[of k "length population" population g] assms by simp

section \<open>The LinkedIn client\<close>


text \<open>
  What the client does with the answer that \<open>session.post\<close> ends in: an error status, or an
  exception of the transport, becomes a LinkedInError, after the one call of \<open>session.post\<close>.
\<close>

lemma create_text_post_error_status:
  assumes "py_strip text \<noteq> []"
    and "respond w sent (Post (BASE_URL @ ''/ugcPosts'') (get_headers (access_token self))
           \<lparr> author = user_urn self, lifecycleState = ''PUBLISHED'', shareCommentary_text = text,
             shareMediaCategory = ''NONE'', memberNetworkVisibility = visibility_value v \<rparr>) = Inr r"
    and "400 \<le> status_code r" "status_code r < 600"
  shows "create_text_post w self text (VisEnum v) sent =
           (Inl (LinkedInError (''Failed to create post: '' @ http_error_text r)),
            sent @ [Post (BASE_URL @ ''/ugcPosts'') (get_headers (access_token self))
              \<lparr> author = user_urn self, lifecycleState = ''PUBLISHED'', shareCommentary_text = text,
                shareMediaCategory = ''NONE'', memberNetworkVisibility = visibility_value v \<rparr>])"
  using assms
  by (simp add: create_text_post_def session_send_def raise_for_status_def Let_def)





section \<open>The hashtag sampler\<close>

text \<open>
  Claim C7. Whatever the random source yields, \<open>get_seo_optimized_hashtags\<close> returns six
  tags, no tag twice: the first two are two different tags of the core pool, the next two
  are two different tags of the technical pool, the fifth is a tag of the business pool and
  the sixth a tag of the trending pool.
\<close>

theorem hashtags_six_distinct_from_pools:
  "length (fst (get_seo_optimized_hashtags g)) = 6
   \<and> distinct (fst (get_seo_optimized_hashtags g))
   \<and> set (take 2 (fst (get_seo_optimized_hashtags g))) \<subseteq> set pool_core
   \<and> set (take 2 (drop 2 (fst (get_seo_optimized_hashtags g)))) \<subseteq> set pool_technical
   \<and> set (take 1 (drop 4 (fst (get_seo_optimized_hashtags g)))) \<subseteq> set pool_business
   \<and> set (take 1 (drop 5 (fst (get_seo_optimized_hashtags g)))) \<subseteq> set pool_trending
   \<and> distinct (take 2 (fst (get_seo_optimized_hashtags g)))
   \<and> distinct (take 2 (drop 2 (fst (get_seo_optimized_hashtags g))))"
proof -
  define c where "c = fst (random_sample pool_core 2 g)"
  define g1 where "g1 = snd (random_sample pool_core 2 g)"
  define t where "t = fst (random_sample pool_technical 2 g1)"
  define g2 where "g2 = snd (random_sample pool_technical 2 g1)"
  define b where "b = fst (random_sample pool_business 1 g2)"
  define g3 where "g3 = snd (random_sample pool_business 1 g2)"
  define r where "r = fst (random_sample pool_trending 1 g3)"
  have eq: "fst (get_seo_optimized_hashtags g) = c @ t @ b @ r"
    by (simp add: get_seo_optimized_hashtags_def c_def g1_def t_def g2_def b_def g3_def r_def
        split_beta Let_def)
  have pc: "length c = 2 \<and> distinct c \<and> set c \<subseteq> set pool_core"
    unfolding c_def by (rule random_sample_props) (simp_all add: pool_core_def)
  have pt: "length t = 2 \<and> distinct t \<and> set t \<subseteq> set pool_technical"
    unfolding t_def by (rule random_sample_props) (simp_all add: pool_technical_def)
  have pb: "length b = 1 \<and> distinct b \<and> set b \<subseteq> set pool_business"
    unfolding b_def by (rule random_sample_props) (simp_all add: pool_business_def)
  have pr: "length r = 1 \<and> distinct r \<and> set r \<subseteq> set pool_trending"
    unfolding r_def by (rule random_sample_props) (simp_all add: pool_trending_def)
  have disj: "set pool_core \<inter> set pool_technical = {}" "set pool_core \<inter> set pool_business = {}"
    "set pool_core \<inter> set pool_trending = {}" "set pool_technical \<inter> set pool_business = {}"
    "set pool_technical \<inter> set pool_trending = {}" "set pool_business \<inter> set pool_trending = {}"
    by (simp_all add: pool_core_def pool_technical_def pool_business_def pool_trending_def)
  have d: "distinct (c @ t @ b @ r)"
    using pc pt pb pr disj by (simp add: disjoint_iff subset_iff) blast
  show ?thesis unfolding eq using pc pt pb pr d by simp
qed

section \<open>Keyword density\<close>

lemma fold_update_map_of:
  "map_of (fold (\<lambda>k kd. AList.update k (f k) kd) ks init) k =
     (if k \<in> set ks then Some (f k) else map_of init k)"
  by (induction ks arbitrary: init) (auto simp: update_conv')

lemma density_lookup:
  "kw \<in> set (primary_keywords p) \<Longrightarrow>
   map_of (calculate_keyword_density p txt) kw =
     Some (py_round2 (density (keyword_count kw (py_split (py_lower txt)))
                              (length (py_split (py_lower txt)))))"
  unfolding calculate_keyword_density_def Let_def
  by (simp add: fold_update_map_of)

lemma py_round2_0 [simp]: "py_round2 0 = 0"
  by (simp add: py_round2_def)

lemma py_round2_100 [simp]: "py_round2 100 = 100"
  by (simp add: py_round2_def Let_def)

lemma keyword_with_space_count:
  assumes "CHR '' '' \<in> set kw"
  shows "keyword_count kw (py_split s) = 0"
proof -
  have "\<not> py_contains (py_lower kw) t" if "t \<in> set (py_split s)" for t
  proof
    assume "py_contains (py_lower kw) t"
    then have "set (py_lower kw) \<subseteq> set t" by (auto simp: py_contains_sublist sublist_def)
    moreover have "CHR '' '' \<in> set (py_lower kw)"
      using assms by (force simp: py_lower_def image_iff)
    ultimately have "CHR '' '' \<in> set t" by blast
    with py_split_tokens[OF that] show False by auto
  qed
  then show ?thesis by (simp add: keyword_count_def)
qed








text \<open>
  Claim C9. A keyword with a space in it is never found in a token, since the tokens of
  \<open>split\<close> hold no whitespace: its density is 0 for every content. All five configured
  keywords have a space, so the density the program computes and persists is 0 for each of
  them, whatever the content.
\<close>

theorem density_zero_for_spaced_keywords:
  "(kw \<in> set (primary_keywords p) \<and> CHR '' '' \<in> set kw \<longrightarrow>
      map_of (calculate_keyword_density p txt) kw = Some 0)
   \<and> (\<forall>kw\<in>set (primary_keywords profile_data). CHR '' '' \<in> set kw)
   \<and> calculate_keyword_density profile_data txt =
       [(''AI Developer'', 0), (''Machine Learning Expert'', 0),
        (''Generative AI Specialist'', 0), (''Chatbot Developer'', 0),
        (''Python Developer'', 0)]"
proof (intro conjI impI)
  assume a: "kw \<in> set (primary_keywords p) \<and> CHR '' '' \<in> set kw"
  then show "map_of (calculate_keyword_density p txt) kw = Some 0"
    by (simp add: density_lookup keyword_with_space_count density_def)
next
  show sp: "\<forall>kw\<in>set (primary_keywords profile_data). CHR '' '' \<in> set kw"
    by (simp add: profile_data_def)
  have "keyword_count kw (py_split (py_lower txt)) = 0"
    if "kw \<in> set (primary_keywords profile_data)" for kw
    using that sp keyword_with_space_count by blast
  then show "calculate_keyword_density profile_data txt =
       [(''AI Developer'', 0), (''Machine Learning Expert'', 0),
        (''Generative AI Specialist'', 0), (''Chatbot Developer'', 0),
        (''Python Developer'', 0)]"
    unfolding calculate_keyword_density_def Let_def
    by (simp add: profile_data_def density_def)
qed

theorem density_zero_for_spaced_keywords_witness:
  "''AI Developer'' \<in> set (primary_keywords profile_data) \<and> CHR '' '' \<in> set ''AI Developer''
   \<and> map_of (calculate_keyword_density profile_data ''AI Developer builds AI Developer tools'')
        ''AI Developer'' = Some 0"
  using density_zero_for_spaced_keywords
    [of "''AI Developer''" profile_data "''AI Developer builds AI Developer tools''"]
  by (simp add: profile_data_def)

section \<open>Formatting and truncation\<close>











section \<open>The length check\<close>
























section \<open>The orchestrator\<close>

text \<open>
  Claim C1. With \<open>max_attempts = 3\<close> and a language model whose every answer fails the length
  check, \<open>create_seo_post\<close> makes three generation calls and publishes nothing. It then
  leaves the loop without a \<open>return\<close>: what it returns is \<open>None\<close>, not a failure dict, and
  no record is written to the audit file.
\<close>

theorem three_invalid_attempts_return_none_and_record_nothing:
  "fst (create_seo_post \<lparr> llm = short_answers, linkedin_token = ''tok'', outside = world_ok \<rparr>
         3 fresh_state) = ReturnedNone
   \<and> audit (snd (create_seo_post \<lparr> llm = short_answers, linkedin_token = ''tok'', outside = world_ok \<rparr>
         3 fresh_state)) = Missing
   \<and> generated (snd (create_seo_post \<lparr> llm = short_answers, linkedin_token = ''tok'', outside = world_ok \<rparr>
         3 fresh_state)) = 3
   \<and> published (snd (create_seo_post \<lparr> llm = short_answers, linkedin_token = ''tok'', outside = world_ok \<rparr>
         3 fresh_state)) = 0
   \<and> sent_requests (snd (create_seo_post \<lparr> llm = short_answers, linkedin_token = ''tok'', outside = world_ok \<rparr>
         3 fresh_state)) = []"
  by code_simp

lemma run_pipeline_frame:
  "run_pipeline self st = (out, st1) \<Longrightarrow>
     audit st1 = audit st \<and> sent_requests st1 = sent_requests st \<and> published st1 = published st
     \<and> generated st1 = Suc (generated st)"
  unfolding run_pipeline_def Let_def
  by (auto split: prod.splits sum.splits if_splits)

text \<open>
  The same for every poster whose pipeline never yields a valid content, and for every
  number of iterations: the loop ends in \<open>None\<close> and leaves the audit file as it was.
\<close>

lemma seo_loop_all_invalid:
  "(\<And>st. fst (run_pipeline self st) = Invalid) \<Longrightarrow>
   fst (seo_loop self m n a st) = ReturnedNone
   \<and> audit (snd (seo_loop self m n a st)) = audit st
   \<and> published (snd (seo_loop self m n a st)) = published st
   \<and> generated (snd (seo_loop self m n a st)) = generated st + n"
proof (induction n arbitrary: a st)
  case 0
  then show ?case by simp
next
  case (Suc n)
  obtain st1 where r: "run_pipeline self st = (Invalid, st1)"
    using Suc.prems[of st] by (cases "run_pipeline self st") auto
  have f: "audit st1 = audit st \<and> sent_requests st1 = sent_requests st \<and> published st1 = published st
     \<and> generated st1 = Suc (generated st)" using run_pipeline_frame[OF r] .
  show ?case using Suc.IH[OF Suc.prems, of "Suc a" st1] r f by simp
qed




end
